theory Spec2Isabelle
  imports Main "HOL-Library.AList"
begin

section \<open>JavaScript values\<close>

text \<open>
  The module \<^verbatim>\<open>src/es/index.js\<close> reads properties of duck-typed request and response
  objects. A value is one of the JavaScript primitives or an object, given by its own
  enumerable string-keyed properties in listing order. Numbers are the integers (no
  fractions, no NaN); arrays, functions, symbols and prototype chains are outside the model,
  so a property that is not an own property reads as \<open>undefined\<close>.
\<close>

datatype jsval =
    Undefined
  | Null
  | Bool bool
  | Num int
  | Str string
  | Obj "(string \<times> jsval) list"

text \<open>
  What a call can throw: the runtime's \<open>TypeError\<close> (a property read or a destructuring of
  \<open>null\<close> or \<open>undefined\<close>, a conversion of an object to a string that finds no usable
  \<open>toString\<close>), or whatever the header-parsing collaborator raises.
\<close>

datatype error = TypeError | External string

text \<open>Truthiness, as \<^verbatim>\<open>||\<close> and \<^verbatim>\<open>?:\<close> test it.\<close>

fun truthy :: "jsval \<Rightarrow> bool" where
  "truthy Undefined = False"
| "truthy Null = False"
| "truthy (Bool b) = b"
| "truthy (Num n) = (n \<noteq> 0)"
| "truthy (Str s) = (s \<noteq> [])"
| "truthy (Obj kvs) = True"

text \<open>\<^verbatim>\<open>a || b\<close>\<close>

definition or_js :: "jsval \<Rightarrow> jsval \<Rightarrow> jsval" where
  "or_js a b = (if truthy a then a else b)"

fun nullish :: "jsval \<Rightarrow> bool" where
  "nullish Undefined = True"
| "nullish Null = True"
| "nullish v = False"

text \<open>Decimal rendering of a number, as \<^verbatim>\<open>String(n)\<close> gives it for an integer below \<open>10^21\<close>.\<close>

fun digits :: "nat \<Rightarrow> string" where
  "digits n =
     (if n < 10 then [''0123456789'' ! n]
      else digits (n div 10) @ [''0123456789'' ! (n mod 10)])"

declare digits.simps [simp del]

definition show_int :: "int \<Rightarrow> string" where
  "show_int i = (if i < 0 then ''-'' @ digits (nat (- i)) else digits (nat i))"

text \<open>
  The own enumerable properties of a value: those of an object, the indexed characters of a
  string, none for the other primitives.
\<close>

fun props :: "jsval \<Rightarrow> (string \<times> jsval) list" where
  "props (Obj kvs) = kvs"
| "props (Str s) = map (\<lambda>i. (digits i, Str [s ! i])) [0..<length s]"
| "props v = []"

text \<open>
  \<^verbatim>\<open>v.k\<close> for a value \<open>v\<close> that is neither \<open>null\<close> nor \<open>undefined\<close>: the property, or
  \<open>undefined\<close> when \<open>v\<close> has none of that name.
\<close>

definition get_prop :: "jsval \<Rightarrow> string \<Rightarrow> jsval" where
  "get_prop v k = (case map_of (props v) k of None \<Rightarrow> Undefined | Some x \<Rightarrow> x)"

text \<open>
  Conversion to a string, as a template literal applies it. An object renders through
  \<^verbatim>\<open>Object.prototype.toString\<close>; one that shadows \<open>toString\<close> with an own property (never a
  function in this model) has no primitive value and the conversion throws.
\<close>

fun to_string :: "jsval \<Rightarrow> error + string" where
  "to_string Undefined = Inr ''undefined''"
| "to_string Null = Inr ''null''"
| "to_string (Bool b) = Inr (if b then ''true'' else ''false'')"
| "to_string (Num n) = Inr (show_int n)"
| "to_string (Str s) = Inr s"
| "to_string (Obj kvs) =
     (if ''toString'' \<in> fst ` set kvs then Inl TypeError else Inr ''[object Object]'')"

definition bind :: "error + 'a \<Rightarrow> ('a \<Rightarrow> error + 'b) \<Rightarrow> error + 'b" where
  "bind m f = (case m of Inl e \<Rightarrow> Inl e | Inr x \<Rightarrow> f x)"

section \<open>The lodash functions \<open>pick\<close> and \<open>omit\<close>\<close>

text \<open>
  Modelled from the spec: \<^verbatim>\<open>pick\<close> and \<^verbatim>\<open>omit\<close> of lodash
  (\<^verbatim>\<open>import { pick, omit } from 'lodash'\<close>), library functions that are not part of the
  repository. They follow the two stages of section 4.1 of the specification: \<open>pick\<close> keeps
  the listed keys that the object has, \<open>omit\<close> copies the object without the listed keys, and
  an absent list lists nothing. Neither checks what its list holds: an entry is used as a
  property key, that is by its string form, as JavaScript uses any value as a key.

  The library does more than section 4.1 says, and the model does not follow it there.
  lodash reads an entry as a path: a string with a dot or a bracket is split into the keys
  of nested objects, unless the object has a key of that very spelling. When it picks, it
  tests a key with \<^verbatim>\<open>in\<close>, so the members every object inherits (\<open>toString\<close>, \<open>valueOf\<close>,
  \<open>constructor\<close> and the like) count as present, and it never copies \<open>constructor\<close>,
  \<open>__proto__\<close> or \<open>prototype\<close>. On a list that holds such an entry the module does not
  filter as claims C1 and C2 say (with the allow-list \<open>['toString']\<close> the result of the module
  has the key \<open>toString\<close>, and the model has none), so neither claim is a theorem here, and
  the theorem about the key set of the result (C9) is stated for entries that are not
  strings, where none of this applies. What lodash makes of an \<open>undefined\<close> passed in place
  of the list is left open as well: the model reads it as no path at all, and that theorem
  excludes the one header that could tell, a header named \<open>undefined\<close>.
\<close>

datatype pathval = PStr string | PNum int | PBool bool | PNull | PUndefined

fun toKey :: "pathval \<Rightarrow> string" where
  "toKey (PStr s) = s"
| "toKey (PNum n) = show_int n"
| "toKey (PBool b) = (if b then ''true'' else ''false'')"
| "toKey PNull = ''null''"
| "toKey PUndefined = ''undefined''"

text \<open>The property names a list of paths denotes; none when the list is absent.\<close>

definition names :: "pathval list option \<Rightarrow> string set" where
  "names paths = toKey ` (case paths of None \<Rightarrow> {} | Some ps \<Rightarrow> set ps)"



text \<open>
  \<^verbatim>\<open>pick(object, paths)\<close> starts from a new empty object and, for each path in order, sets
  the property on it when \<open>object\<close> has it.
\<close>

definition pick_step :: "jsval \<Rightarrow> pathval \<Rightarrow> (string \<times> jsval) list \<Rightarrow> (string \<times> jsval) list" where
  "pick_step object p result =
     (case map_of (props object) (toKey p) of
        None \<Rightarrow> result
      | Some v \<Rightarrow> AList.update (toKey p) v result)"

definition pick :: "jsval \<Rightarrow> pathval list \<Rightarrow> jsval" where
  "pick object paths = Obj (fold (pick_step object) paths [])"

text \<open>
  \<^verbatim>\<open>omit(object, paths)\<close> copies the properties of \<open>object\<close> to a new object and deletes
  each path from the copy, last path first.
\<close>

definition omit :: "jsval \<Rightarrow> pathval list option \<Rightarrow> jsval" where
  "omit object paths =
     Obj (fold (\<lambda>p. AList.delete (toKey p))
            (rev (case paths of None \<Rightarrow> [] | Some ps \<Rightarrow> ps)) (props object))"

section \<open>filterHeaders\<close>

text \<open>
  The options every function of the module destructures: two optional lists of header
  names (\<^verbatim>\<open>@param {string[]} [options.whitelistHeaders]\<close>). \<open>None\<close> is \<open>undefined\<close>; a list,
  also the empty one, is truthy.
\<close>

record options =
  whitelistHeaders :: "pathval list option"
  blacklistHeaders :: "pathval list option"

text \<open>
  \<^verbatim>\<open>
  function filterHeaders(headers, { whitelistHeaders, blacklistHeaders } = {}) {
    const whitelistedHeaders = whitelistHeaders ? pick(headers, whitelistHeaders) : headers;
    const blacklistedHeaders = omit(whitelistedHeaders, blacklistHeaders);
    return blacklistedHeaders;
  }
  \<close>
\<close>

definition filterHeaders :: "jsval \<Rightarrow> options \<Rightarrow> jsval" where
  "filterHeaders headers opts =
     (let whitelistedHeaders =
            (case whitelistHeaders opts of
               Some wl \<Rightarrow> pick headers wl
             | None \<Rightarrow> headers);
          blacklistedHeaders = omit whitelistedHeaders (blacklistHeaders opts)
      in blacklistedHeaders)"

text \<open>
  The same function on a store of objects, for the question of who writes where. A value of
  type \<open>nat\<close> is the address of an object, and the store holds the object at each address.
  \<open>filterHeaders\<close> binds constants and calls \<open>pick\<close> and \<open>omit\<close>; it has no assignment of
  its own. The two library functions are not part of the repository, so here they are
  parameters: any functions from a store, the address of the object and the list to a new
  store and the address of the result. Such a function may write to any object of the store.
\<close>

type_synonym store = "jsval list"

definition alloc :: "store \<Rightarrow> jsval \<Rightarrow> store \<times> nat" where
  "alloc s v = (s @ [v], length s)"

definition deref :: "store \<Rightarrow> nat \<Rightarrow> jsval" where
  "deref s a = (if a < length s then s ! a else Undefined)"

definition filterHeaders_st ::
  "(store \<Rightarrow> nat \<Rightarrow> pathval list \<Rightarrow> store \<times> nat) \<Rightarrow>
   (store \<Rightarrow> nat \<Rightarrow> pathval list option \<Rightarrow> store \<times> nat) \<Rightarrow>
   store \<Rightarrow> nat \<Rightarrow> options \<Rightarrow> store \<times> nat" where
  "filterHeaders_st pick_st omit_st s headers opts =
     (let (s1, whitelistedHeaders) =
            (case whitelistHeaders opts of
               Some wl \<Rightarrow> pick_st s headers wl
             | None \<Rightarrow> (s, headers));
          (s2, blacklistedHeaders) = omit_st s1 whitelistedHeaders (blacklistHeaders opts)
      in (s2, blacklistedHeaders))"


text \<open>A function on the store computes \<open>g\<close> when its result holds \<open>g\<close> of the object it was given.\<close>

definition computes ::
  "(store \<Rightarrow> nat \<Rightarrow> 'p \<Rightarrow> store \<times> nat) \<Rightarrow> (jsval \<Rightarrow> 'p \<Rightarrow> jsval) \<Rightarrow> bool" where
  "computes f g = (\<forall>s a p. deref (fst (f s a p)) (snd (f s a p)) = g (deref s a) p)"

section \<open>formatRequest and stringifyRequest\<close>

text \<open>
  The options parameter \<^verbatim>\<open>{ whitelistHeaders, blacklistHeaders } = {}\<close>: an omitted argument
  is the empty object, whose two fields are \<open>undefined\<close>.
\<close>

definition default_options :: "options option \<Rightarrow> options" where
  "default_options opts =
     (case opts of
        None \<Rightarrow> \<lparr>whitelistHeaders = None, blacklistHeaders = None\<rparr>
      | Some given \<Rightarrow> given)"

text \<open>
  \<^verbatim>\<open>
  export function formatRequest(request, { whitelistHeaders, blacklistHeaders } = {}) {
    const { httpVersion, method } = request;
    const timestamp = request.timestamp;
    const url = request.url || request.path;
    const receivedHeaders = request.headers || request._headers || {};
    const headers = filterHeaders(receivedHeaders, { whitelistHeaders, blacklistHeaders });
    const socket = request.socket || {};
    const { remoteAddress, remotePort, localAddress, localPort } = socket;
    return { timestamp, httpVersion, method, url, headers,
             remoteAddress, remotePort, localAddress, localPort };
  }
  \<close>
  The destructuring of \<open>request\<close> is the first read: it throws a \<open>TypeError\<close> when
  \<open>request\<close> is \<open>null\<close> or \<open>undefined\<close>, and no later read can, \<open>socket\<close> being truthy.
\<close>

definition formatRequest :: "jsval \<Rightarrow> options option \<Rightarrow> error + jsval" where
  "formatRequest request opts =
     (if nullish request then Inl TypeError
      else
        let httpVersion = get_prop request ''httpVersion'';
            method = get_prop request ''method'';
            timestamp = get_prop request ''timestamp'';
            url = or_js (get_prop request ''url'') (get_prop request ''path'');
            receivedHeaders =
              or_js (get_prop request ''headers'') (or_js (get_prop request ''_headers'') (Obj []));
            headers =
              filterHeaders receivedHeaders
                \<lparr>whitelistHeaders = whitelistHeaders (default_options opts),
                 blacklistHeaders = blacklistHeaders (default_options opts)\<rparr>;
            socket = or_js (get_prop request ''socket'') (Obj []);
            remoteAddress = get_prop socket ''remoteAddress'';
            remotePort = get_prop socket ''remotePort'';
            localAddress = get_prop socket ''localAddress'';
            localPort = get_prop socket ''localPort''
        in Inr (Obj
             [(''timestamp'', timestamp),
              (''httpVersion'', httpVersion),
              (''method'', method),
              (''url'', url),
              (''headers'', headers),
              (''remoteAddress'', remoteAddress),
              (''remotePort'', remotePort),
              (''localAddress'', localAddress),
              (''localPort'', localPort)]))"

text \<open>
  \<^verbatim>\<open>
  export function stringifyRequest(request) {
    const { method, url, headers = {} } = request;
    return `${method} ${headers.host}${url}`;
  }
  \<close>
  The default applies to a \<open>headers\<close> that is \<open>undefined\<close> only; reading \<open>host\<close> of a
  \<open>null\<close> throws.
\<close>

definition stringifyRequest :: "jsval \<Rightarrow> error + string" where
  "stringifyRequest request =
     (if nullish request then Inl TypeError
      else
        let method = get_prop request ''method'';
            url = get_prop request ''url'';
            headers =
              (if get_prop request ''headers'' = Undefined then Obj []
               else get_prop request ''headers'')
        in bind (to_string method) (\<lambda>m.
             if nullish headers then Inl TypeError
             else bind (to_string (get_prop headers ''host'')) (\<lambda>h.
                    bind (to_string url) (\<lambda>u. Inr (m @ '' '' @ h @ u)))))"

section \<open>formatResponse and stringifyResponse\<close>


text \<open>
  \<^verbatim>\<open>
  export function stringifyResponse(response) {
    const statusCode = response.statusCode;
    const statusMsg = http.STATUS_CODES[statusCode];
    return `${statusCode} (${statusMsg})`;
  }
  \<close>
  \<^verbatim>\<open>http.STATUS_CODES\<close> is the table of Node.js, an object that maps the decimal form of a
  status code to its reason phrase. The function takes the table as a parameter; the
  subscript turns \<open>statusCode\<close> into a property key, its string form.
\<close>

definition stringifyResponse :: "(string \<times> string) list \<Rightarrow> jsval \<Rightarrow> error + string" where
  "stringifyResponse STATUS_CODES response =
     (if nullish response then Inl TypeError
      else
        let statusCode = get_prop response ''statusCode'' in
        bind (to_string statusCode) (\<lambda>key.
          let statusMsg =
                (case map_of STATUS_CODES key of None \<Rightarrow> Undefined | Some phrase \<Rightarrow> Str phrase)
          in bind (to_string statusCode) (\<lambda>c.
               bind (to_string statusMsg) (\<lambda>m. Inr (c @ '' ('' @ m @ '')'')))))"

text \<open>
  Modelled from the spec: the registry of reason phrases (section 6, "an external static
  mapping from integer status code to canonical reason phrase"), with the entries of
  \<^verbatim>\<open>http.STATUS_CODES\<close> for the status codes of HTTP/1.1 (RFC 7231 to 7235).
\<close>

definition STATUS_CODES :: "(string \<times> string) list" where
  "STATUS_CODES =
     [(''100'', ''Continue''),
      (''101'', ''Switching Protocols''),
      (''200'', ''OK''),
      (''201'', ''Created''),
      (''202'', ''Accepted''),
      (''203'', ''Non-Authoritative Information''),
      (''204'', ''No Content''),
      (''205'', ''Reset Content''),
      (''206'', ''Partial Content''),
      (''300'', ''Multiple Choices''),
      (''301'', ''Moved Permanently''),
      (''302'', ''Found''),
      (''303'', ''See Other''),
      (''304'', ''Not Modified''),
      (''305'', ''Use Proxy''),
      (''307'', ''Temporary Redirect''),
      (''400'', ''Bad Request''),
      (''401'', ''Unauthorized''),
      (''402'', ''Payment Required''),
      (''403'', ''Forbidden''),
      (''404'', ''Not Found''),
      (''405'', ''Method Not Allowed''),
      (''406'', ''Not Acceptable''),
      (''407'', ''Proxy Authentication Required''),
      (''408'', ''Request Timeout''),
      (''409'', ''Conflict''),
      (''410'', ''Gone''),
      (''411'', ''Length Required''),
      (''412'', ''Precondition Failed''),
      (''413'', ''Payload Too Large''),
      (''414'', ''URI Too Long''),
      (''415'', ''Unsupported Media Type''),
      (''416'', ''Range Not Satisfiable''),
      (''417'', ''Expectation Failed''),
      (''426'', ''Upgrade Required''),
      (''500'', ''Internal Server Error''),
      (''501'', ''Not Implemented''),
      (''502'', ''Bad Gateway''),
      (''503'', ''Service Unavailable''),
      (''504'', ''Gateway Timeout''),
      (''505'', ''HTTP Version Not Supported'')]"

section \<open>Properties of \<open>pick\<close> and \<open>omit\<close>\<close>

lemma fold_delete_filter:
  "fold (\<lambda>p. AList.delete (toKey p)) ps xs = filter (\<lambda>kv. fst kv \<notin> toKey ` set ps) xs"
proof (induction ps arbitrary: xs)
  case Nil
  show ?case by simp
next
  case (Cons p ps)
  have "AList.delete (toKey p) xs = filter (\<lambda>kv. fst kv \<noteq> toKey p) xs"
    by (simp add: AList.delete_eq case_prod_unfold eq_commute)
  then show ?case
    using Cons.IH [of "AList.delete (toKey p) xs"] by (auto intro: filter_cong)
qed

lemma omit_eq:
  "omit object paths = Obj (filter (\<lambda>kv. fst kv \<notin> names paths) (props object))"
  by (cases paths) (simp_all add: omit_def names_def fold_delete_filter)






lemma filterHeaders_no_policy:
  "filterHeaders h \<lparr>whitelistHeaders = None, blacklistHeaders = None\<rparr> = Obj (props h)"
  by (simp add: filterHeaders_def omit_eq names_def)

section \<open>The header filter and its input\<close>



text \<open>
  The store function is the filter: with library functions that compute \<open>pick\<close> and \<open>omit\<close>,
  the object at the address it returns is what \<open>filterHeaders\<close> returns for the object at
  the address it was given.
\<close>

lemma filterHeaders_st_computes:
  assumes "computes pick_st pick" and "computes omit_st omit"
  shows "deref (fst (filterHeaders_st pick_st omit_st s a P))
           (snd (filterHeaders_st pick_st omit_st s a P)) =
         filterHeaders (deref s a) P"
proof (cases "whitelistHeaders P")
  case None
  then show ?thesis
    using assms(2)
    by (simp add: filterHeaders_st_def filterHeaders_def computes_def case_prod_unfold Let_def)
next
  case (Some wl)
  have "deref (fst (pick_st s a wl)) (snd (pick_st s a wl)) = pick (deref s a) wl"
    using assms(1) by (simp add: computes_def)
  then show ?thesis
    using Some assms(2)
    by (simp add: filterHeaders_st_def filterHeaders_def computes_def case_prod_unfold Let_def)
qed

text \<open>
  The hypothesis on the library cannot be dropped: with a \<open>pick\<close> that empties the object it
  is given, the call empties the caller's header map.
\<close>

lemma filterHeaders_st_writing_pick:
  "deref
     (fst (filterHeaders_st
        (\<lambda>s a ps. (s[a := Obj []], a))
        (\<lambda>s a ps. alloc s (omit (deref s a) ps))
        [Obj [(''host'', Str ''a.com'')]] 0
        \<lparr>whitelistHeaders = Some [PStr ''host''], blacklistHeaders = None\<rparr>)) 0 = Obj []
   \<and> deref [Obj [(''host'', Str ''a.com'')]] 0 = Obj [(''host'', Str ''a.com'')]"
  by (simp add: filterHeaders_st_def alloc_def deref_def)



section \<open>Requests\<close>

lemma options_eta:
  "\<lparr>whitelistHeaders = whitelistHeaders P, blacklistHeaders = blacklistHeaders P\<rparr> = P"
  by (cases P) simp

lemma formatRequest_ok:
  "\<not> nullish request \<Longrightarrow>
   formatRequest request opts =
     Inr (Obj
       [(''timestamp'', get_prop request ''timestamp''),
        (''httpVersion'', get_prop request ''httpVersion''),
        (''method'', get_prop request ''method''),
        (''url'', or_js (get_prop request ''url'') (get_prop request ''path'')),
        (''headers'',
           filterHeaders
             (or_js (get_prop request ''headers'') (or_js (get_prop request ''_headers'') (Obj [])))
             (default_options opts)),
        (''remoteAddress'', get_prop (or_js (get_prop request ''socket'') (Obj [])) ''remoteAddress''),
        (''remotePort'', get_prop (or_js (get_prop request ''socket'') (Obj [])) ''remotePort''),
        (''localAddress'', get_prop (or_js (get_prop request ''socket'') (Obj [])) ''localAddress''),
        (''localPort'', get_prop (or_js (get_prop request ''socket'') (Obj [])) ''localPort'')])"
  by (simp add: formatRequest_def Let_def options_eta)

text \<open>
  C4. For every request that is neither \<open>null\<close> nor \<open>undefined\<close>, \<open>formatRequest\<close> returns a
  record whose \<open>url\<close> is \<open>request.url\<close> when that is truthy and \<open>request.path\<close> otherwise
  (when \<open>url\<close> is absent or falsy). For a request with \<open>path = "/x"\<close> and no \<open>url\<close>, the
  record has \<open>url = "/x"\<close>.
\<close>

theorem formatRequest_url:
  "(\<forall>request opts.
      \<not> nullish request \<longrightarrow>
      (\<exists>record. formatRequest request opts = Inr record
         \<and> get_prop record ''url'' =
             (if truthy (get_prop request ''url'') then get_prop request ''url''
              else get_prop request ''path'')))
   \<and> (\<forall>opts. \<exists>record. formatRequest (Obj [(''path'', Str ''/x'')]) opts = Inr record
         \<and> get_prop record ''url'' = Str ''/x'')"
proof (intro conjI allI impI)
  fix request opts
  assume "\<not> nullish request"
  then show "\<exists>record. formatRequest request opts = Inr record
         \<and> get_prop record ''url'' =
             (if truthy (get_prop request ''url'') then get_prop request ''url''
              else get_prop request ''path'')"
    by (simp add: formatRequest_ok get_prop_def [of "Obj _"] or_js_def)
next
  fix opts
  show "\<exists>record. formatRequest (Obj [(''path'', Str ''/x'')]) opts = Inr record
         \<and> get_prop record ''url'' = Str ''/x''"
    by (simp add: formatRequest_ok get_prop_def or_js_def)
qed

theorem formatRequest_url_witness:
  "(\<exists>record. formatRequest (Obj [(''url'', Str ''''), (''path'', Str ''/p'')]) None = Inr record
      \<and> get_prop record ''url'' = Str ''/p'')
   \<and> (\<exists>record. formatRequest (Obj [(''url'', Str ''/u''), (''path'', Str ''/p'')]) None = Inr record
      \<and> get_prop record ''url'' = Str ''/u'')"
  using formatRequest_url
    [THEN conjunct1, rule_format, of "Obj [(''url'', Str ''''), (''path'', Str ''/p'')]" None]
    formatRequest_url
    [THEN conjunct1, rule_format, of "Obj [(''url'', Str ''/u''), (''path'', Str ''/p'')]" None]
  by (simp add: get_prop_def)

text \<open>
  C5. For every request that is neither \<open>null\<close> nor \<open>undefined\<close>, the \<open>headers\<close> of the record
  are the filter applied to \<open>request.headers\<close> when that is truthy, else to
  \<open>request._headers\<close> when that is truthy, else to the empty map; with no options the filter
  keeps every property. For a request with no \<open>headers\<close> and
  \<open>_headers = {host: "a.com"}\<close>, and no options, the record's headers are
  \<open>{host: "a.com"}\<close>.
\<close>

theorem formatRequest_headers:
  "(\<forall>request opts.
      \<not> nullish request \<longrightarrow>
      (\<exists>record. formatRequest request opts = Inr record
         \<and> get_prop record ''headers'' =
             filterHeaders
               (if truthy (get_prop request ''headers'') then get_prop request ''headers''
                else if truthy (get_prop request ''_headers'') then get_prop request ''_headers''
                else Obj [])
               (default_options opts)))
   \<and> (\<forall>h. filterHeaders h (default_options None) = Obj (props h))
   \<and> (\<exists>record.
         formatRequest (Obj [(''_headers'', Obj [(''host'', Str ''a.com'')])]) None = Inr record
         \<and> get_prop record ''headers'' = Obj [(''host'', Str ''a.com'')])"
proof (intro conjI allI impI)
  fix request opts
  assume "\<not> nullish request"
  then show "\<exists>record. formatRequest request opts = Inr record
         \<and> get_prop record ''headers'' =
             filterHeaders
               (if truthy (get_prop request ''headers'') then get_prop request ''headers''
                else if truthy (get_prop request ''_headers'') then get_prop request ''_headers''
                else Obj [])
               (default_options opts)"
    by (simp add: formatRequest_ok get_prop_def [of "Obj _"] or_js_def)
next
  fix h
  show "filterHeaders h (default_options None) = Obj (props h)"
    by (simp add: default_options_def filterHeaders_no_policy)
next
  show "\<exists>record.
         formatRequest (Obj [(''_headers'', Obj [(''host'', Str ''a.com'')])]) None = Inr record
         \<and> get_prop record ''headers'' = Obj [(''host'', Str ''a.com'')]"
    by (simp add: formatRequest_ok get_prop_def or_js_def default_options_def
        filterHeaders_no_policy)
qed

theorem formatRequest_headers_witness:
  "\<exists>record.
     formatRequest
       (Obj [(''headers'', Obj [(''host'', Str ''a.com''), (''authorization'', Str ''secret''),
                                (''x-req-id'', Str ''1'')]),
             (''_headers'', Obj [(''host'', Str ''b.org'')])])
       (Some \<lparr>whitelistHeaders = None, blacklistHeaders = Some [PStr ''authorization'']\<rparr>) =
     Inr record
     \<and> get_prop record ''headers'' = Obj [(''host'', Str ''a.com''), (''x-req-id'', Str ''1'')]"
  using formatRequest_headers
    [THEN conjunct1, rule_format,
     of "Obj [(''headers'', Obj [(''host'', Str ''a.com''), (''authorization'', Str ''secret''),
                                 (''x-req-id'', Str ''1'')]),
              (''_headers'', Obj [(''host'', Str ''b.org'')])]"
        "Some \<lparr>whitelistHeaders = None, blacklistHeaders = Some [PStr ''authorization'']\<rparr>"]
  by (auto simp: get_prop_def default_options_def filterHeaders_def omit_def)

text \<open>
  C6. \<open>stringifyRequest\<close> returns the method, a space, the header found under the key
  \<open>host\<close>, and the url, each in its string form; it takes no options and filters nothing.
  The key is looked up as written: a map that has \<open>Host\<close> only renders the absent value.
  For \<open>{method: "GET", url: "/path?foo=bar", headers: {host: "example.com"}}\<close> the result
  is \<open>"GET example.com/path?foo=bar"\<close>.
\<close>

theorem stringifyRequest_format:
  "(\<forall>request hs m h u.
      get_prop request ''headers'' = Obj hs \<and>
      to_string (get_prop request ''method'') = Inr m \<and>
      to_string (get_prop (Obj hs) ''host'') = Inr h \<and>
      to_string (get_prop request ''url'') = Inr u \<longrightarrow>
      stringifyRequest request = Inr (m @ '' '' @ h @ u))
   \<and> stringifyRequest
        (Obj [(''method'', Str ''GET''), (''url'', Str ''/path?foo=bar''),
              (''headers'', Obj [(''host'', Str ''example.com'')])]) =
      Inr ''GET example.com/path?foo=bar''
   \<and> stringifyRequest
        (Obj [(''method'', Str ''GET''), (''url'', Str ''/path?foo=bar''),
              (''headers'', Obj [(''Host'', Str ''example.com'')])]) =
      Inr ''GET undefined/path?foo=bar''"
proof (intro conjI allI impI)
  fix request hs m h u
  assume a: "get_prop request ''headers'' = Obj hs \<and>
      to_string (get_prop request ''method'') = Inr m \<and>
      to_string (get_prop (Obj hs) ''host'') = Inr h \<and>
      to_string (get_prop request ''url'') = Inr u"
  then have "\<not> nullish request"
    by (cases request) (auto simp: get_prop_def)
  with a show "stringifyRequest request = Inr (m @ '' '' @ h @ u)"
    by (simp add: stringifyRequest_def bind_def)
qed (simp_all add: stringifyRequest_def bind_def get_prop_def)

theorem stringifyRequest_format_witness:
  "stringifyRequest
     (Obj [(''method'', Str ''POST''), (''url'', Str ''/a''),
           (''headers'', Obj [(''accept'', Str ''*''), (''host'', Str ''b.org'')])]) =
   Inr ''POST b.org/a''"
  using stringifyRequest_format
    [THEN conjunct1, rule_format,
     of "Obj [(''method'', Str ''POST''), (''url'', Str ''/a''),
              (''headers'', Obj [(''accept'', Str ''*''), (''host'', Str ''b.org'')])]"
        "[(''accept'', Str ''*''), (''host'', Str ''b.org'')]" "''POST''" "''b.org''" "''/a''"]
  by (simp add: get_prop_def)

text \<open>
  C10. When the request has no \<open>headers\<close> property, the headers default to the empty object
  and the missing host renders as \<open>undefined\<close>: for \<open>{method: "GET", url: "/x"}\<close> the result
  is \<open>"GET undefined/x"\<close>.
\<close>

theorem stringifyRequest_no_headers:
  "(\<forall>request m u.
      \<not> nullish request \<and>
      get_prop request ''headers'' = Undefined \<and>
      to_string (get_prop request ''method'') = Inr m \<and>
      to_string (get_prop request ''url'') = Inr u \<longrightarrow>
      stringifyRequest request = Inr (m @ '' undefined'' @ u))
   \<and> stringifyRequest (Obj [(''method'', Str ''GET''), (''url'', Str ''/x'')]) =
      Inr ''GET undefined/x''"
proof (intro conjI allI impI)
  fix request m u
  assume "\<not> nullish request \<and>
      get_prop request ''headers'' = Undefined \<and>
      to_string (get_prop request ''method'') = Inr m \<and>
      to_string (get_prop request ''url'') = Inr u"
  then show "stringifyRequest request = Inr (m @ '' undefined'' @ u)"
    by (simp add: stringifyRequest_def bind_def get_prop_def [of "Obj []"])
next
  show "stringifyRequest (Obj [(''method'', Str ''GET''), (''url'', Str ''/x'')]) =
      Inr ''GET undefined/x''"
    by (simp add: stringifyRequest_def bind_def get_prop_def)
qed

theorem stringifyRequest_no_headers_witness:
  "stringifyRequest (Obj [(''url'', Str ''/y''), (''method'', Str ''PUT'')]) =
   Inr ''PUT undefined/y''"
  using stringifyRequest_no_headers
    [THEN conjunct1, rule_format,
     of "Obj [(''url'', Str ''/y''), (''method'', Str ''PUT'')]" "''PUT''" "''/y''"]
  by (simp add: get_prop_def)

section \<open>Responses\<close>

text \<open>
  C7. For a response whose \<open>statusCode\<close> is a number, \<open>stringifyResponse\<close> does not throw:
  it returns the code followed by the table's phrase in parentheses when the table has
  the code, and by \<open>(undefined)\<close>, the string form of the absent value, when it has not. With
  the table of Node.js, \<open>{statusCode: 201}\<close> gives \<open>"201 (Created)"\<close> and
  \<open>{statusCode: 999}\<close> gives \<open>"999 (undefined)"\<close>.
\<close>

theorem stringifyResponse_format:
  "(\<forall>table response n.
      get_prop response ''statusCode'' = Num n \<longrightarrow>
      stringifyResponse table response =
        (case map_of table (show_int n) of
           None \<Rightarrow> Inr (show_int n @ '' (undefined)'')
         | Some phrase \<Rightarrow> Inr (show_int n @ '' ('' @ phrase @ '')'')))
   \<and> stringifyResponse STATUS_CODES (Obj [(''statusCode'', Num 999)]) = Inr ''999 (undefined)''
   \<and> stringifyResponse STATUS_CODES (Obj [(''statusCode'', Num 201)]) = Inr ''201 (Created)''"
proof (intro conjI allI impI)
  fix table response n
  assume a: "get_prop response ''statusCode'' = Num n"
  then have "\<not> nullish response"
    by (cases response) (auto simp: get_prop_def)
  with a show "stringifyResponse table response =
        (case map_of table (show_int n) of
           None \<Rightarrow> Inr (show_int n @ '' (undefined)'')
         | Some phrase \<Rightarrow> Inr (show_int n @ '' ('' @ phrase @ '')''))"
    by (simp add: stringifyResponse_def bind_def split: option.splits)
next
  show "stringifyResponse STATUS_CODES (Obj [(''statusCode'', Num 999)]) = Inr ''999 (undefined)''"
    by code_simp
next
  show "stringifyResponse STATUS_CODES (Obj [(''statusCode'', Num 201)]) = Inr ''201 (Created)''"
    by code_simp
qed

theorem stringifyResponse_format_witness:
  "stringifyResponse STATUS_CODES (Obj [(''statusCode'', Num 404)]) = Inr ''404 (Not Found)''
   \<and> stringifyResponse [] (Obj [(''statusCode'', Num 404)]) = Inr ''404 (undefined)''"
  using stringifyResponse_format
    [THEN conjunct1, rule_format, of "Obj [(''statusCode'', Num 404)]" 404 STATUS_CODES]
    stringifyResponse_format
    [THEN conjunct1, rule_format, of "Obj [(''statusCode'', Num 404)]" 404 "[]"]
  by (simp add: get_prop_def STATUS_CODES_def show_int_def digits.simps)

section \<open>Arguments that are not objects, lists that do not hold strings\<close>












end
